theory Spec2Isabelle
  imports Main "HOL-Library.Word"
begin

section \<open>BuzzDB Lab 1: the flat-file store of \<open>buzzdb_lab1.cpp\<close>\<close>

text \<open>
  The embedding follows \<open>src/buzzdb_lab1.cpp\<close> line by line. The file is a lab
  skeleton: the accessors at the end of class \<open>FlatFile\<close> are implemented, every other
  member function consists of comments followed by a placeholder statement
  (\<open>return false;\<close>, \<open>return {};\<close>, \<open>return {0, 0};\<close> or an empty body). The
  definitions below are the statements that are really there, not the steps the comments
  describe.
\<close>

subsection \<open>Data model\<close>

text \<open>
  C++ \<open>int\<close> is a 32-bit two's complement integer and \<open>long long\<close> a 64-bit one; both
  are words, read with \<open>sint\<close>. \<open>size_t\<close> results are counts and are natural numbers.
\<close>

type_synonym cint = "32 word"
type_synonym clonglong = "64 word"

text \<open>
  The three structs. Their fields are \<open>id\<close>, \<open>username\<close>, ... in the source; a record
  field is a global selector function, so each is prefixed with its struct's name.
\<close>

record User =
  user_id :: cint
  user_username :: string
  user_location :: string

record Post =
  post_id :: cint
  post_content :: string
  post_username :: string
  post_views :: cint

record Engagement =
  eng_id :: cint
  eng_postId :: cint
  eng_username :: string
  eng_type :: string
  eng_comment :: string
  eng_timestamp :: clonglong

text \<open>
  The member variables of class \<open>FlatFile\<close>: the three paths, the three
  \<open>std::map<int, T>\<close> tables and the \<open>unordered_map\<close> index. The four mutexes carry no
  data, and no statement of the file locks one of them.
\<close>

record FlatFile =
  users_csv_path :: string
  posts_csv_path :: string
  engagements_csv_path :: string
  users :: "cint \<rightharpoonup> User"
  posts :: "cint \<rightharpoonup> Post"
  engagements :: "cint \<rightharpoonup> Engagement"
  username_to_id :: "string \<rightharpoonup> cint"

text \<open>The files on disk: a path either names no file or a file with its contents.\<close>

type_synonym filesystem = "string \<rightharpoonup> string"

subsection \<open>Private helpers\<close>

text \<open>\<open>safeParseInt(const string& s, int& result)\<close>: the body is \<open>return false;\<close>.
  The out-parameter \<open>result\<close> is returned beside the flag, with the value it had.\<close>

definition safeParseInt :: "string \<Rightarrow> cint \<Rightarrow> bool \<times> cint" where
  "safeParseInt s result = (False, result)"

text \<open>\<open>safeParseLongLong(const string& s, long long& result)\<close>: \<open>return false;\<close>.\<close>

definition safeParseLongLong :: "string \<Rightarrow> clonglong \<Rightarrow> bool \<times> clonglong" where
  "safeParseLongLong s result = (False, result)"

text \<open>\<open>atomicWriteCSV(path, header, lines)\<close>: \<open>return false;\<close>, with no file
  opened, written, renamed or removed.\<close>

definition atomicWriteCSV ::
  "string \<Rightarrow> string \<Rightarrow> string list \<Rightarrow> filesystem \<Rightarrow> bool \<times> filesystem" where
  "atomicWriteCSV path header lines fs = (False, fs)"

subsection \<open>Constructor and loading\<close>

text \<open>The constructor stores the three paths; the containers start empty.\<close>

definition FlatFile_new :: "string \<Rightarrow> string \<Rightarrow> string \<Rightarrow> FlatFile" where
  "FlatFile_new u p e =
     \<lparr> users_csv_path = u, posts_csv_path = p, engagements_csv_path = e,
       users = Map.empty, posts = Map.empty, engagements = Map.empty,
       username_to_id = Map.empty \<rparr>"

text \<open>\<open>void loadFlatFile()\<close>: the body holds comments only.\<close>

definition loadFlatFile :: "filesystem \<Rightarrow> FlatFile \<Rightarrow> FlatFile" where
  "loadFlatFile fs db = db"

text \<open>\<open>void loadMultipleFlatFilesInParallel()\<close>: the body holds comments only; no
  thread is created.\<close>

definition loadMultipleFlatFilesInParallel :: "filesystem \<Rightarrow> FlatFile \<Rightarrow> FlatFile" where
  "loadMultipleFlatFilesInParallel fs db = db"

subsection \<open>Mutations and queries\<close>

text \<open>The member functions that write files take the disk and return it with the
  object, so that "changes nothing" covers both memory and disk.\<close>

text \<open>\<open>bool updatePostViews(int post_id, int views_count)\<close>: \<open>return false;\<close>.\<close>

definition updatePostViews ::
  "cint \<Rightarrow> cint \<Rightarrow> filesystem \<Rightarrow> FlatFile \<Rightarrow> bool \<times> filesystem \<times> FlatFile" where
  "updatePostViews pid views_count fs db = (False, fs, db)"

text \<open>
  \<open>void addEngagementRecord(Engagement& record)\<close>: the body holds comments only. The
  function has no return value and no \<open>throw\<close>; the model returns the in-out parameter
  \<open>record\<close>, the disk and the object on the right of a sum whose left side is the
  error a caller could be told about. No branch of the source produces one.
\<close>

datatype ValidationError = DanglingPost | DanglingUser

definition addEngagementRecord ::
  "Engagement \<Rightarrow> filesystem \<Rightarrow> FlatFile \<Rightarrow>
     ValidationError + (Engagement \<times> filesystem \<times> FlatFile)" where
  "addEngagementRecord record fs db = Inr (record, fs, db)"

text \<open>\<open>vector<pair<int, string>> getAllUserComments(int user_id)\<close>: \<open>return {};\<close>.\<close>

definition getAllUserComments :: "FlatFile \<Rightarrow> cint \<Rightarrow> (cint \<times> string) list" where
  "getAllUserComments db uid = []"

text \<open>\<open>pair<int, int> getAllEngagementsByLocation(string location)\<close>:
  \<open>return {0, 0};\<close>.\<close>

definition getAllEngagementsByLocation :: "FlatFile \<Rightarrow> string \<Rightarrow> cint \<times> cint" where
  "getAllEngagementsByLocation db location = (0, 0)"

text \<open>\<open>bool updateUserName(int user_id, string new_username)\<close>: \<open>return false;\<close>.\<close>

definition updateUserName ::
  "cint \<Rightarrow> string \<Rightarrow> filesystem \<Rightarrow> FlatFile \<Rightarrow> bool \<times> filesystem \<times> FlatFile" where
  "updateUserName uid new_username fs db = (False, fs, db)"

text \<open>
  The callers of \<open>test8_concurrent_updates\<close>: every thread runs
  \<open>db.updatePostViews(post, 1)\<close> in a loop. A schedule lists, call by call, which
  caller's next call runs; the calls are applied in that order to the shared disk and
  object.
\<close>

fun run_schedule ::
  "nat list \<Rightarrow> cint \<Rightarrow> filesystem \<times> FlatFile \<Rightarrow> filesystem \<times> FlatFile" where
  "run_schedule [] pid w = w"
| "run_schedule (caller # rest) pid (fs, db) =
     (case updatePostViews pid 1 fs db of (ok, fs', db') \<Rightarrow> run_schedule rest pid (fs', db'))"

text \<open>Ten callers with ten calls each, taken in turn.\<close>

definition ten_by_ten :: "nat list" where
  "ten_by_ten = concat (replicate 10 [0..<10])"

subsection \<open>Accessors\<close>

definition getUserCount :: "FlatFile \<Rightarrow> nat" where
  "getUserCount db = card (dom (users db))"

definition getPostCount :: "FlatFile \<Rightarrow> nat" where
  "getPostCount db = card (dom (posts db))"

definition getEngagementCount :: "FlatFile \<Rightarrow> nat" where
  "getEngagementCount db = card (dom (engagements db))"

definition hasUser :: "FlatFile \<Rightarrow> cint \<Rightarrow> bool" where
  "hasUser db i = (users db i \<noteq> None)"

definition hasPost :: "FlatFile \<Rightarrow> cint \<Rightarrow> bool" where
  "hasPost db i = (posts db i \<noteq> None)"

text \<open>\<open>it != posts.end() ? it->second.views : -1\<close>\<close>

definition getPostViews :: "FlatFile \<Rightarrow> cint \<Rightarrow> cint" where
  "getPostViews db pid = (case posts db pid of Some p \<Rightarrow> post_views p | None \<Rightarrow> - 1)"

definition getUsername :: "FlatFile \<Rightarrow> cint \<Rightarrow> string" where
  "getUsername db uid = (case users db uid of Some u \<Rightarrow> user_username u | None \<Rightarrow> '''')"

subsection \<open>Sample data\<close>

text \<open>Rows as the test functions of the source describe them: alice is user 1 and eve
  user 5, both in Atlanta, with one like each; bob is user 2 in Boston, with one like and
  the comment "I love Atlanta too" on post 4.\<close>

definition alice :: User where
  "alice = \<lparr> user_id = 1, user_username = ''alice'', user_location = ''Atlanta'' \<rparr>"

definition bob :: User where
  "bob = \<lparr> user_id = 2, user_username = ''bob'', user_location = ''Boston'' \<rparr>"

definition eve :: User where
  "eve = \<lparr> user_id = 5, user_username = ''eve'', user_location = ''Atlanta'' \<rparr>"

definition mk_post :: "cint \<Rightarrow> string \<Rightarrow> string \<Rightarrow> cint \<Rightarrow> Post" where
  "mk_post i c u v = \<lparr> post_id = i, post_content = c, post_username = u, post_views = v \<rparr>"

definition post1 :: Post where
  "post1 = mk_post 1 ''Hello world'' ''alice'' 10"

definition mk_engagement ::
  "cint \<Rightarrow> cint \<Rightarrow> string \<Rightarrow> string \<Rightarrow> string \<Rightarrow> clonglong \<Rightarrow> Engagement" where
  "mk_engagement i p u t c ts =
     \<lparr> eng_id = i, eng_postId = p, eng_username = u, eng_type = t, eng_comment = c,
       eng_timestamp = ts \<rparr>"

definition alice_like :: Engagement where
  "alice_like = mk_engagement 1 2 ''alice'' ''like'' [] 1706400000"

definition eve_like :: Engagement where
  "eve_like = mk_engagement 2 3 ''eve'' ''like'' [] 1706400100"

definition bob_comment :: Engagement where
  "bob_comment = mk_engagement 3 4 ''bob'' ''comment'' ''I love Atlanta too'' 1706400200"

definition bob_like :: Engagement where
  "bob_like = mk_engagement 4 1 ''bob'' ''like'' [] 1706400300"

definition sample_db :: FlatFile where
  "sample_db = (FlatFile_new ''users.csv'' ''posts.csv'' ''engagements.csv'')
      \<lparr> users := [1 \<mapsto> alice, 2 \<mapsto> bob, 5 \<mapsto> eve],
        posts := [1 \<mapsto> post1, 2 \<mapsto> mk_post 2 ''Second'' ''bob'' 0,
                  3 \<mapsto> mk_post 3 ''Third'' ''bob'' 0, 4 \<mapsto> mk_post 4 ''Atlanta'' ''eve'' 0],
        engagements := [1 \<mapsto> alice_like, 2 \<mapsto> eve_like, 3 \<mapsto> bob_comment,
                        4 \<mapsto> bob_like] \<rparr>"

text \<open>The same store with post 1 at zero views.\<close>

definition zero_views_db :: FlatFile where
  "zero_views_db = sample_db \<lparr> posts := (posts sample_db)(1 \<mapsto> post1 \<lparr> post_views := 0 \<rparr>) \<rparr>"

text \<open>The engagement of \<open>test7_add_engagement\<close>, pointed at a post that does not
  exist.\<close>

definition dangling_like :: Engagement where
  "dangling_like = mk_engagement 0 999 ''eve'' ''like'' [] 1706500000"

section \<open>Theorems\<close>

subsection \<open>Loading\<close>

text \<open>
  C1. For every content of the disk and every triple of paths, a fresh instance loaded by
  \<open>loadFlatFile\<close> and a fresh instance loaded by \<open>loadMultipleFlatFilesInParallel\<close>
  hold the same user, post and engagement tables and report the same three counts. (Both
  bodies are empty, so both instances keep the empty tables of the constructor.)
\<close>

theorem load_equivalence:
  "users (loadFlatFile fs (FlatFile_new u p e)) =
     users (loadMultipleFlatFilesInParallel fs (FlatFile_new u p e)) \<and>
   posts (loadFlatFile fs (FlatFile_new u p e)) =
     posts (loadMultipleFlatFilesInParallel fs (FlatFile_new u p e)) \<and>
   engagements (loadFlatFile fs (FlatFile_new u p e)) =
     engagements (loadMultipleFlatFilesInParallel fs (FlatFile_new u p e)) \<and>
   getUserCount (loadFlatFile fs (FlatFile_new u p e)) =
     getUserCount (loadMultipleFlatFilesInParallel fs (FlatFile_new u p e)) \<and>
   getPostCount (loadFlatFile fs (FlatFile_new u p e)) =
     getPostCount (loadMultipleFlatFilesInParallel fs (FlatFile_new u p e)) \<and>
   getEngagementCount (loadFlatFile fs (FlatFile_new u p e)) =
     getEngagementCount (loadMultipleFlatFilesInParallel fs (FlatFile_new u p e))"
  by (simp add: loadFlatFile_def loadMultipleFlatFilesInParallel_def)

text \<open>What both loads leave behind: no row at all, whatever the files hold.\<close>

lemma loadFlatFile_fresh_empty:
  "getUserCount (loadFlatFile fs (FlatFile_new u p e)) = 0 \<and>
   getPostCount (loadFlatFile fs (FlatFile_new u p e)) = 0 \<and>
   getEngagementCount (loadFlatFile fs (FlatFile_new u p e)) = 0"
  by (simp add: loadFlatFile_def FlatFile_new_def getUserCount_def getPostCount_def
      getEngagementCount_def)

subsection \<open>Parsing\<close>

text \<open>
  C8 (the code at the failing input). The strings \<open>42\<close> and \<open>1706500000\<close> are complete
  decimal integers; \<open>safeParseInt\<close> and \<open>safeParseLongLong\<close> report failure on them and
  leave the out-parameter as it was.
\<close>

theorem safeParse_rejects_complete_integer:
  "safeParseInt ''42'' 0 = (False, 0) \<and> safeParseLongLong ''1706500000'' 0 = (False, 0)"
  by (simp add: safeParseInt_def safeParseLongLong_def)

lemma safeParseInt_never_succeeds: "\<not> fst (safeParseInt s r)"
  by (simp add: safeParseInt_def)

subsection \<open>The durable writer\<close>

lemma atomicWriteCSV_reports_failure: "\<not> fst (atomicWriteCSV path header lines fs)"
  by (simp add: atomicWriteCSV_def)

text \<open>
  C9. Whenever \<open>atomicWriteCSV\<close> reports failure, the target path holds what it held
  before, and every path that named no file before names no file afterwards: no
  temporary file is left, and the target is not partially written. (The function has no
  replace step to reach: it reports failure on every call.)
\<close>

theorem atomicWriteCSV_failure_leaves_files:
  assumes "atomicWriteCSV path header lines fs = (ok, fs')" and "\<not> ok"
  shows "fs' path = fs path \<and> (\<forall>q. fs q = None \<longrightarrow> fs' q = None)"
  using assms by (simp add: atomicWriteCSV_def)

theorem atomicWriteCSV_failure_leaves_files_witness:
  "atomicWriteCSV ''posts.csv'' ''id,content,username,views'' [''1,Hello world,alice,60'']
     [''posts.csv'' \<mapsto> ''old contents''] = (False, [''posts.csv'' \<mapsto> ''old contents'']) \<and>
   [''posts.csv'' \<mapsto> ''old contents''] ''posts.csv'' = Some ''old contents'' \<and>
   [''posts.csv'' \<mapsto> ''old contents''] ''posts.csv.tmp'' = None"
  using atomicWriteCSV_failure_leaves_files
    [of "''posts.csv''" "''id,content,username,views''" "[''1,Hello world,alice,60'']"
        "[''posts.csv'' \<mapsto> ''old contents'']" False "[''posts.csv'' \<mapsto> ''old contents'']"]
  by (simp add: atomicWriteCSV_def)

subsection \<open>View counts\<close>

lemma updatePostViews_absent:
  "posts db pid = None \<Longrightarrow> updatePostViews pid delta fs db = (False, fs, db)"
  by (simp add: updatePostViews_def)

text \<open>
  C2 (the code at the failing input). Post 1 is in the posts table with 10 views;
  \<open>updatePostViews(1, 50)\<close> returns false, leaves disk and object as they were, and the
  stored count is still 10, not 60.
\<close>

theorem updatePostViews_present_post_unchanged:
  "posts sample_db 1 = Some post1 \<and> post_views post1 = 10 \<and>
   updatePostViews 1 50 Map.empty sample_db = (False, Map.empty, sample_db) \<and>
   getPostViews (snd (snd (updatePostViews 1 50 Map.empty sample_db))) 1 = 10 \<and>
   post_views post1 + 50 = 60"
  by (simp add: updatePostViews_def getPostViews_def sample_db_def post1_def mk_post_def)

lemma run_schedule_unchanged: "run_schedule sched pid w = w"
proof (induction sched arbitrary: w)
  case Nil
  show ?case by simp
next
  case (Cons caller rest)
  obtain fs db where w: "w = (fs, db)" by (cases w)
  show ?case by (simp add: w updatePostViews_def Cons.IH)
qed

text \<open>
  C3 (the code at the failing input). Post 1 starts at 0 views; ten callers make ten
  calls \<open>updatePostViews(1, 1)\<close> each, here taken in turn. The schedule has 100 calls and
  the count read afterwards is 0, not 100.
\<close>

theorem ten_callers_ten_increments_lost:
  "length ten_by_ten = 100 \<and>
   getPostViews zero_views_db 1 = 0 \<and>
   getPostViews (snd (run_schedule ten_by_ten 1 (Map.empty, zero_views_db))) 1 = 0"
proof -
  have "length ten_by_ten = 100"
    by (simp add: ten_by_ten_def length_concat sum_list_replicate)
  moreover have "getPostViews zero_views_db 1 = 0"
    by (simp add: getPostViews_def zero_views_db_def)
  ultimately show ?thesis by (simp add: run_schedule_unchanged)
qed

subsection \<open>Renaming a user\<close>

text \<open>
  C4 (the code at the failing input). User 1 is in the users table as alice;
  \<open>updateUserName(1, "alice_new")\<close> returns false and user 1 is still called alice.
\<close>

theorem updateUserName_present_user_unchanged:
  "users sample_db 1 = Some alice \<and>
   updateUserName 1 ''alice_new'' Map.empty sample_db = (False, Map.empty, sample_db) \<and>
   getUsername (snd (snd (updateUserName 1 ''alice_new'' Map.empty sample_db))) 1 = ''alice''"
  by (simp add: updateUserName_def getUsername_def sample_db_def alice_def)

subsection \<open>Adding an engagement\<close>

text \<open>
  C5 as stated fails: the candidate \<open>dangling_like\<close> names post 999, which is not in the
  posts table, and the call returns normally, with no validation error.
\<close>

theorem addEngagementRecord_no_error_counterexample:
  "posts sample_db (eng_postId dangling_like) = None \<and>
   \<not> isl (addEngagementRecord dangling_like Map.empty sample_db)"
  by (simp add: addEngagementRecord_def sample_db_def dangling_like_def mk_engagement_def)

text \<open>
  C5, amended. For every candidate engagement whose post id is not in the posts table or
  whose username is the username of no row of the users table, \<open>addEngagementRecord\<close>
  returns normally and leaves the candidate, the disk and the object, so also the
  engagement table and its count, unchanged.
\<close>

theorem addEngagementRecord_dangling_unchanged:
  assumes "posts db (eng_postId r) = None \<or>
           (\<forall>uid usr. users db uid = Some usr \<longrightarrow> user_username usr \<noteq> eng_username r)"
  shows "addEngagementRecord r fs db = Inr (r, fs, db) \<and>
         getEngagementCount (snd (snd (projr (addEngagementRecord r fs db)))) =
           getEngagementCount db"
  by (simp add: addEngagementRecord_def)

theorem addEngagementRecord_dangling_unchanged_witness:
  "posts sample_db (eng_postId dangling_like) = None \<and>
   addEngagementRecord dangling_like Map.empty sample_db =
     Inr (dangling_like, Map.empty, sample_db)"
proof -
  have h: "posts sample_db (eng_postId dangling_like) = None"
    by (simp add: sample_db_def dangling_like_def mk_engagement_def)
  show ?thesis
    using h addEngagementRecord_dangling_unchanged
      [of sample_db dangling_like Map.empty, OF disjI1 [OF h]]
    by simp
qed

subsection \<open>Queries\<close>

text \<open>
  C6 (the code at the failing input). User 2 is bob, and engagement 3 is a comment by
  bob on post 4; \<open>getAllUserComments(2)\<close> returns the empty sequence.
\<close>

theorem getAllUserComments_misses_comment:
  "users sample_db 2 = Some bob \<and> engagements sample_db 3 = Some bob_comment \<and>
   eng_username bob_comment = user_username bob \<and> eng_type bob_comment = ''comment'' \<and>
   (eng_postId bob_comment, eng_comment bob_comment) = (4, ''I love Atlanta too'') \<and>
   getAllUserComments sample_db 2 = []"
  by (simp add: getAllUserComments_def sample_db_def bob_def bob_comment_def
      mk_engagement_def)

text \<open>
  C7 (the code at the failing input). alice and eve are the users located in Atlanta and
  each has one like; \<open>getAllEngagementsByLocation("Atlanta")\<close> returns \<open>(0, 0)\<close>.
\<close>

theorem getAllEngagementsByLocation_misses_likes:
  "users sample_db 1 = Some alice \<and> user_location alice = ''Atlanta'' \<and>
   users sample_db 5 = Some eve \<and> user_location eve = ''Atlanta'' \<and>
   engagements sample_db 1 = Some alice_like \<and> eng_username alice_like = ''alice'' \<and>
   eng_type alice_like = ''like'' \<and>
   engagements sample_db 2 = Some eve_like \<and> eng_username eve_like = ''eve'' \<and>
   eng_type eve_like = ''like'' \<and>
   getAllEngagementsByLocation sample_db ''Atlanta'' = (0, 0)"
  by (simp add: getAllEngagementsByLocation_def sample_db_def alice_def eve_def
      alice_like_def eve_like_def mk_engagement_def)

subsection \<open>Accessors\<close>

text \<open>
  C10. For a post id present in the posts table, \<open>getPostViews\<close> returns the stored view
  count of that post; for a post id that is not present it returns the sentinel \<open>-1\<close>.
\<close>

theorem getPostViews_stored_or_sentinel:
  "(posts db pid = Some p \<longrightarrow> getPostViews db pid = post_views p) \<and>
   (posts db pid = None \<longrightarrow> getPostViews db pid = - 1)"
  by (simp add: getPostViews_def)

theorem getPostViews_stored_or_sentinel_witness:
  "posts sample_db 1 = Some post1 \<and> getPostViews sample_db 1 = 10 \<and>
   posts sample_db 999 = None \<and> getPostViews sample_db 999 = - 1"
  using getPostViews_stored_or_sentinel [of sample_db 1 post1]
        getPostViews_stored_or_sentinel [of sample_db 999 post1]
  by (simp add: sample_db_def post1_def mk_post_def)

text \<open>A post whose stored count is \<open>-1\<close> gives the answer an absent post gives.\<close>

lemma getPostViews_sentinel_collision:
  "getPostViews (sample_db \<lparr> posts := [1 \<mapsto> post1 \<lparr> post_views := - 1 \<rparr>] \<rparr>) 1 =
   getPostViews (sample_db \<lparr> posts := Map.empty \<rparr>) 1"
  by (simp add: getPostViews_def)

end
